theory Spec2Isabelle
  imports Complex_Main "HOL-Library.Word" "HOL-Library.Sublist" "HOL-Library.Log_Nat"
begin

section \<open>JavaScript strings\<close>

text \<open>
  A JavaScript string is a sequence of UTF-16 code units, and \<^verbatim>\<open>length\<close> counts code
  units. \<open>js\<close> embeds a literal whose characters are below U+0100.
\<close>

type_synonym jschar = "16 word"
type_synonym jsstring = "jschar list"

definition js :: "string \<Rightarrow> jsstring" where
  "js s = map (\<lambda>c. of_nat (of_char c :: nat)) s"

definition nl :: jschar where
  "nl = 0x0A"

definition space :: jschar where
  "space = 0x20"

definition dquote :: jschar where
  "dquote = 0x22"

text \<open>
  \<^verbatim>\<open>String.prototype.trim\<close> strips WhiteSpace and LineTerminator code units from both
  ends: TAB, LF, VT, FF, CR, SP, NBSP, U+1680, U+2000 to U+200A, U+2028, U+2029, U+202F,
  U+205F, U+3000 and U+FEFF.
\<close>

definition is_ws :: "jschar \<Rightarrow> bool" where
  "is_ws c \<longleftrightarrow>
     c = 0x09 \<or> c = 0x0A \<or> c = 0x0B \<or> c = 0x0C \<or> c = 0x0D \<or> c = 0x20 \<or> c = 0xA0 \<or>
     c = 0x1680 \<or> (0x2000 \<le> c \<and> c \<le> 0x200A) \<or> c = 0x2028 \<or> c = 0x2029 \<or>
     c = 0x202F \<or> c = 0x205F \<or> c = 0x3000 \<or> c = 0xFEFF"

definition trim :: "jsstring \<Rightarrow> jsstring" where
  "trim s = rev (dropWhile is_ws (rev (dropWhile is_ws s)))"

text \<open>
  \<^verbatim>\<open>s.split('\n')\<close>: the pieces between line feeds; never empty, and the last piece is
  what follows the last line feed. The second case branch cannot be reached.
\<close>

fun split_nl :: "jsstring \<Rightarrow> jsstring list" where
  "split_nl [] = [[]]"
| "split_nl (c # cs) =
     (if c = nl then [] # split_nl cs
      else (case split_nl cs of p # ps \<Rightarrow> (c # p) # ps | [] \<Rightarrow> [[c]]))"

text \<open>A template literal prints a non-negative integer in decimal.\<close>

definition digit :: "nat \<Rightarrow> jschar" where
  "digit d = of_nat (48 + d)"

fun show_nat :: "nat \<Rightarrow> jsstring" where
  "show_nat n = (if n < 10 then [digit n] else show_nat (n div 10) @ [digit (n mod 10)])"

declare show_nat.simps [simp del]

section \<open>The generic request\<close>

text \<open>
  \<^verbatim>\<open>Part\<close> of @google/genai: only its optional \<^verbatim>\<open>text\<close> is read here (\<open>None\<close>: the key
  is absent or undefined, as for an image part). \<^verbatim>\<open>Content\<close> is \<^verbatim>\<open>{parts?, role?}\<close>.
\<close>

record part =
  part_text :: "jsstring option"

record content =
  parts :: "part list option"
  role :: "jsstring option"

text \<open>
  \<^verbatim>\<open>ContentListUnion = Content | Content[] | PartUnion | PartUnion[]\<close> with
  \<^verbatim>\<open>PartUnion = Part | string\<close>. An entry is a string, an object without a \<^verbatim>\<open>parts\<close> key
  (a \<^verbatim>\<open>Part\<close>), or an object with a \<^verbatim>\<open>parts\<close> key (a \<^verbatim>\<open>Content\<close>; its value may be
  undefined, \<open>parts = None\<close>).
\<close>

datatype content_entry = EString jsstring | EPart part | EContent content

datatype content_list_union = Single content_entry | Many "content_entry list"

record request =
  contents :: content_list_union

record gen_config =
  temperature :: "rat option"
  topP :: "rat option"
  topK :: "rat option"

record gen_request = request +
  config :: "gen_config option"

text \<open>\<^verbatim>\<open>typeof c === 'object' && 'parts' in c\<close>\<close>

fun is_content :: "content_entry \<Rightarrow> bool" where
  "is_content (EString s) = False"
| "is_content (EPart p) = False"
| "is_content (EContent c) = True"

fun as_content :: "content_entry \<Rightarrow> content list" where
  "as_content (EContent c) = [c]"
| "as_content _ = []"

text \<open>The normalisation shared by both extraction functions (lines 194-198, 267-271).\<close>

fun content_list :: "content_list_union \<Rightarrow> content list" where
  "content_list (Many cs) = concat (map as_content (filter is_content cs))"
| "content_list (Single c) = (if is_content c then as_content c else [])"

text \<open>\<^verbatim>\<open>'text' in part && part.text\<close>: the text, when it is a non-empty string.\<close>

definition truthy_text :: "part \<Rightarrow> jsstring option" where
  "truthy_text p = (case part_text p of None \<Rightarrow> None | Some t \<Rightarrow> if t = [] then None else Some t)"

text \<open>
  The two nested loops, with the accumulator \<open>acc\<close> and the separator appended after
  each text.
\<close>

fun append_parts :: "jschar \<Rightarrow> jsstring \<Rightarrow> part list \<Rightarrow> jsstring" where
  "append_parts sep acc [] = acc"
| "append_parts sep acc (p # ps) =
     (case truthy_text p of
        Some t \<Rightarrow> append_parts sep (acc @ t @ [sep]) ps
      | None \<Rightarrow> append_parts sep acc ps)"

fun append_contents :: "jschar \<Rightarrow> jsstring \<Rightarrow> content list \<Rightarrow> jsstring" where
  "append_contents sep acc [] = acc"
| "append_contents sep acc (c # cs) =
     (case parts c of
        Some ps \<Rightarrow> append_contents sep (append_parts sep acc ps) cs
      | None \<Rightarrow> append_contents sep acc cs)"

definition convertToOllamaPrompt :: "'a request_scheme \<Rightarrow> jsstring" where
  "convertToOllamaPrompt request =
     trim (append_contents nl [] (content_list (contents request)))"

definition extractTextFromRequest :: "'a request_scheme \<Rightarrow> jsstring" where
  "extractTextFromRequest request =
     trim (append_contents space [] (content_list (contents request)))"

text \<open>\<^verbatim>\<open>Math.ceil(text.length / 4)\<close>, exact on lengths.\<close>

definition ceil_div4 :: "nat \<Rightarrow> nat" where
  "ceil_div4 n = (n + 3) div 4"

record count_tokens_response =
  totalTokens :: nat

definition countTokens :: "'a request_scheme \<Rightarrow> count_tokens_response" where
  "countTokens request =
     \<lparr>totalTokens = ceil_div4 (length (extractTextFromRequest request))\<rparr>"

section \<open>The provider's response and the generic response\<close>

text \<open>
  A JavaScript number is an IEEE 754 double: a finite value (every finite double is a
  rational), an infinity or NaN. The two zeros are not told apart.
\<close>

datatype number = Finite rat | PosInfinity | NegInfinity | NaN

text \<open>The nearest integer, a tie going to the even one.\<close>

definition round_half_even :: "rat \<Rightarrow> int" where
  "round_half_even y =
     (let f = \<lfloor>y\<rfloor>; r = y - of_int f
      in if r < 1 / 2 then f else if 1 / 2 < r then f + 1 else if even f then f else f + 1)"

text \<open>
  Rounding an exact result to the nearest value of a binary format with \<open>p\<close> significand
  bits whose least positive value is \<open>2^-m\<close> and which overflows at \<open>2^(h-m)\<close>: with \<open>u\<close>
  the magnitude in units of \<open>2^-m\<close>, the \<open>k\<close> bits beyond the first \<open>p\<close> are rounded away,
  ties to even. Doubles have \<open>p = 53\<close>, \<open>m = 1074\<close> and overflow at \<open>2^1024\<close>.
\<close>

definition round_to_binary :: "nat \<Rightarrow> nat \<Rightarrow> nat \<Rightarrow> rat \<Rightarrow> number" where
  "round_to_binary p m h x =
     (let u = \<bar>x\<bar> * 2 ^ m;
          k = nat (bitlen \<lfloor>u\<rfloor> - int p);
          n = round_half_even (u / 2 ^ k) * 2 ^ k
      in if 2 ^ h \<le> n then (if 0 < x then PosInfinity else NegInfinity)
         else Finite (sgn x * of_int n / 2 ^ m))"

definition to_double :: "rat \<Rightarrow> number" where
  "to_double x = round_to_binary 53 1074 2098 x"

text \<open>\<^verbatim>\<open>a + b\<close> on two numbers.\<close>

fun number_add :: "number \<Rightarrow> number \<Rightarrow> number" where
  "number_add NaN b = NaN"
| "number_add a NaN = NaN"
| "number_add PosInfinity NegInfinity = NaN"
| "number_add NegInfinity PosInfinity = NaN"
| "number_add PosInfinity b = PosInfinity"
| "number_add a PosInfinity = PosInfinity"
| "number_add NegInfinity b = NegInfinity"
| "number_add a NegInfinity = NegInfinity"
| "number_add (Finite a) (Finite b) = to_double (a + b)"

text \<open>
  The provider's JSON object \<^verbatim>\<open>{response, done, prompt_eval_count, eval_count}\<close>, every
  field optional (\<open>None\<close>: absent).
\<close>

record ollama_data =
  response :: "jsstring option"
  done_flag :: "bool option"
  prompt_eval_count :: "number option"
  eval_count :: "number option"

text \<open>
  What \<^verbatim>\<open>JSON.parse\<close> or \<^verbatim>\<open>response.json()\<close> hands to the conversions (\<^verbatim>\<open>data: any\<close>):
  \<^verbatim>\<open>null\<close>, a value without the four properties (a boolean, number, string or array), or
  an object.
\<close>

datatype json = JNull | JOther | JObject ollama_data

record js_error =
  name :: jsstring
  message :: jsstring

text \<open>\<^verbatim>\<open>new Error(msg)\<close>\<close>

definition Error :: "jsstring \<Rightarrow> js_error" where
  "Error msg = \<lparr>name = js ''Error'', message = msg\<rparr>"

text \<open>Reading a property of \<^verbatim>\<open>null\<close> throws a TypeError (the text is V8's).\<close>

definition null_read_error :: js_error where
  "null_read_error =
     \<lparr>name = js ''TypeError'',
      message = js ''Cannot read properties of null (reading '' @ [0x27] @ js ''response''
        @ [0x27] @ js '')''\<rparr>"

definition no_fields :: ollama_data where
  "no_fields = \<lparr>response = None, done_flag = None, prompt_eval_count = None, eval_count = None\<rparr>"

fun properties :: "json \<Rightarrow> js_error + ollama_data" where
  "properties JNull = Inl null_read_error"
| "properties JOther = Inr no_fields"
| "properties (JObject d) = Inr d"

text \<open>Truthiness, and \<^verbatim>\<open>a || b\<close> on an optional string and on an optional number.\<close>

definition truthy_str :: "jsstring option \<Rightarrow> bool" where
  "truthy_str v = (case v of None \<Rightarrow> False | Some s \<Rightarrow> s \<noteq> [])"

definition truthy_bool :: "bool option \<Rightarrow> bool" where
  "truthy_bool v = (case v of None \<Rightarrow> False | Some b \<Rightarrow> b)"

definition or_str :: "jsstring option \<Rightarrow> jsstring \<Rightarrow> jsstring" where
  "or_str v d = (case v of None \<Rightarrow> d | Some s \<Rightarrow> if s = [] then d else s)"

fun truthy_num :: "number \<Rightarrow> bool" where
  "truthy_num (Finite x) = (x \<noteq> 0)"
| "truthy_num PosInfinity = True"
| "truthy_num NegInfinity = True"
| "truthy_num NaN = False"

definition or_num :: "number option \<Rightarrow> number \<Rightarrow> number" where
  "or_num v d = (case v of None \<Rightarrow> d | Some n \<Rightarrow> if truthy_num n then n else d)"

datatype finish_reason = STOP | MAX_TOKENS

text \<open>A safety rating is never built here: the list is always empty.\<close>

datatype safety_rating = SafetyRating jsstring jsstring

record candidate =
  content :: content
  finishReason :: "finish_reason option"
  index :: nat

record prompt_feedback =
  safetyRatings :: "safety_rating list"

record usage_metadata =
  promptTokenCount :: number
  candidatesTokenCount :: number
  totalTokenCount :: number

text \<open>
  \<^verbatim>\<open>GenerateContentResponse\<close>. The getter properties \<^verbatim>\<open>text\<close>, \<^verbatim>\<open>data\<close>, \<^verbatim>\<open>functionCalls\<close>,
  \<^verbatim>\<open>executableCode\<close> and \<^verbatim>\<open>codeExecutionResult\<close> are set to undefined by both
  conversions and are left out. \<open>usageMetadata = None\<close>: the key is absent.
\<close>

record generate_content_response =
  candidates :: "candidate list"
  promptFeedback :: prompt_feedback
  usageMetadata :: "usage_metadata option"

definition convertFromOllamaResponse :: "json \<Rightarrow> js_error + generate_content_response" where
  "convertFromOllamaResponse data =
     (case properties data of
        Inl e \<Rightarrow> Inl e
      | Inr d \<Rightarrow>
          Inr \<lparr>candidates =
                 [\<lparr>content = \<lparr>parts = Some [\<lparr>part_text = Some (or_str (response d) [])\<rparr>],
                                role = Some (js ''model'')\<rparr>,
                   finishReason = Some (if truthy_bool (done_flag d) then STOP else MAX_TOKENS),
                   index = 0\<rparr>],
               promptFeedback = \<lparr>safetyRatings = []\<rparr>,
               usageMetadata =
                 Some \<lparr>promptTokenCount = or_num (prompt_eval_count d) (Finite 0),
                       candidatesTokenCount = or_num (eval_count d) (Finite 0),
                       totalTokenCount =
                         number_add (or_num (prompt_eval_count d) (Finite 0))
                           (or_num (eval_count d) (Finite 0))\<rparr>\<rparr>)"

definition convertFromOllamaStreamResponse :: "json \<Rightarrow> js_error + generate_content_response" where
  "convertFromOllamaStreamResponse data =
     (case properties data of
        Inl e \<Rightarrow> Inl e
      | Inr d \<Rightarrow>
          Inr \<lparr>candidates =
                 [\<lparr>content = \<lparr>parts = Some [\<lparr>part_text = Some (or_str (response d) [])\<rparr>],
                                role = Some (js ''model'')\<rparr>,
                   finishReason = (if truthy_bool (done_flag d) then Some STOP else None),
                   index = 0\<rparr>],
               promptFeedback = \<lparr>safetyRatings = []\<rparr>,
               usageMetadata = None\<rparr>)"

section \<open>Configuration, errors and the transport\<close>

record local_model_config =
  endpoint :: jsstring
  model :: jsstring
  provider :: jsstring

text \<open>The errors the adapter throws, by the name the specification gives each.\<close>

definition UnsupportedProvider :: "jsstring \<Rightarrow> js_error" where
  "UnsupportedProvider p = Error (js ''Unsupported local model provider: '' @ p)"

definition NotSupported :: js_error where
  "NotSupported = Error (js ''Embedding not supported with local models. Use Google embedding models.'')"

definition UpstreamError :: "nat \<Rightarrow> jsstring \<Rightarrow> js_error" where
  "UpstreamError st reason = Error (js ''Ollama API error: '' @ show_nat st @ [space] @ reason)"

definition NoResponseBody :: js_error where
  "NoResponseBody = Error (js ''No response body from Ollama'')"

definition Timeout :: "local_model_config \<Rightarrow> js_error" where
  "Timeout cfg =
     Error (js ''Local model endpoint timeout after 60s: '' @ endpoint cfg
       @ js ''/api/generate is not responding. Make sure your local model server (''
       @ provider cfg @ js '') is running and the model '' @ [dquote] @ model cfg @ [dquote]
       @ js '' is available.'')"

definition RequestFailed :: "jsstring \<Rightarrow> js_error" where
  "RequestFailed m = Error (js ''Local model request failed: '' @ m)"

text \<open>\<^verbatim>\<open>Error.prototype.toString\<close>, and \<^verbatim>\<open>${error.message || error}\<close>.\<close>

definition error_toString :: "js_error \<Rightarrow> jsstring" where
  "error_toString e =
     (if name e = [] then message e
      else if message e = [] then name e
      else name e @ js '': '' @ message e)"

definition error_text :: "js_error \<Rightarrow> jsstring" where
  "error_text e = (if message e \<noteq> [] then message e else error_toString e)"

text \<open>The \<^verbatim>\<open>catch\<close> block of both Ollama paths (lines 104-111, 179-186).\<close>

definition catch_block :: "local_model_config \<Rightarrow> js_error \<Rightarrow> js_error" where
  "catch_block cfg error =
     (if name error = js ''AbortError'' then Timeout cfg
      else RequestFailed (error_text error))"

text \<open>
  The POST to \<^verbatim>\<open>{endpoint}/api/generate\<close>: its URL and the fields of its JSON body.
  Numbers of the options are rationals (\<^verbatim>\<open>0.7\<close> is sent as that decimal).
\<close>

record http_request =
  url :: jsstring
  body_model :: jsstring
  body_prompt :: jsstring
  body_stream :: bool
  opt_temperature :: rat
  opt_top_p :: rat
  opt_top_k :: rat

text \<open>\<^verbatim>\<open>request.config?.f ?? d\<close>\<close>

definition config_or :: "(gen_config \<Rightarrow> rat option) \<Rightarrow> rat \<Rightarrow> 'a gen_request_scheme \<Rightarrow> rat" where
  "config_or f d request =
     (case config request of None \<Rightarrow> d | Some c \<Rightarrow> (case f c of None \<Rightarrow> d | Some v \<Rightarrow> v))"

definition ollama_request ::
  "local_model_config \<Rightarrow> jsstring \<Rightarrow> bool \<Rightarrow> 'a gen_request_scheme \<Rightarrow> http_request" where
  "ollama_request cfg prompt streaming request =
     \<lparr>url = endpoint cfg @ js ''/api/generate'',
      body_model = model cfg,
      body_prompt = prompt,
      body_stream = streaming,
      opt_temperature = config_or temperature (7 / 10) request,
      opt_top_p = config_or topP (9 / 10) request,
      opt_top_k = config_or topK 40 request\<rparr>"

text \<open>
  The transport answers a request with the time in milliseconds at which \<^verbatim>\<open>fetch\<close> would
  settle (\<open>None\<close>: never) and what it would settle with: a rejection or a response.
  A response has its status line, what \<^verbatim>\<open>response.json()\<close> settles with (\<open>None\<close>: the
  body never arrives in full and it never settles), and its body stream (\<open>None\<close>:
  \<^verbatim>\<open>response.body\<close> is null): the decoded text of each read in order, and what the read
  after them does: it signals the end, fails, or never settles.
\<close>

datatype stream_end = EndOfStream | ReadFails js_error | ReadStalls

record stream_body =
  chunks :: "jsstring list"
  ending :: stream_end

record http_response =
  status :: nat
  statusText :: jsstring
  json_result :: "(js_error + json) option"
  body :: "stream_body option"

record reply =
  settles_at :: "nat option"
  settles_with :: "js_error + http_response"

type_synonym transport = "http_request \<Rightarrow> reply"

text \<open>\<^verbatim>\<open>response.ok\<close>: the status is in the range 200 to 299.\<close>

definition ok :: "http_response \<Rightarrow> bool" where
  "ok r \<longleftrightarrow> 200 \<le> status r \<and> status r \<le> 299"

text \<open>\<^verbatim>\<open>setTimeout(() => controller.abort(), 120000)\<close>\<close>

definition timeout_ms :: nat where
  "timeout_ms = 120000"

definition abort_error :: js_error where
  "abort_error = \<lparr>name = js ''AbortError'', message = js ''This operation was aborted''\<rparr>"

text \<open>
  \<^verbatim>\<open>fetch\<close> under the abort signal: a reply that has not settled when the timer fires is
  rejected with an AbortError; the timer is cleared once \<^verbatim>\<open>fetch\<close> has settled.
\<close>

definition fetch :: "transport \<Rightarrow> nat \<Rightarrow> http_request \<Rightarrow> js_error + http_response" where
  "fetch net timer rq =
     (case settles_at (net rq) of
        None \<Rightarrow> Inl abort_error
      | Some t \<Rightarrow> if t < timer then settles_with (net rq) else Inl abort_error)"

section \<open>The adapter\<close>

text \<open>
  Every method returns its outcome together with the requests it handed to the transport,
  in order. A thrown error is \<open>Inl\<close>. The outcome of \<open>generateContent\<close> is \<open>None\<close> when its
  promise never settles. Console output is not modelled.
\<close>

definition generateContentOllama ::
  "local_model_config \<Rightarrow> transport \<Rightarrow> 'a gen_request_scheme
     \<Rightarrow> (js_error + generate_content_response) option \<times> http_request list" where
  "generateContentOllama cfg net request =
     (let prompt = convertToOllamaPrompt request;
          rq = ollama_request cfg prompt False request;
          attempt =
            (case fetch net timeout_ms rq of
               Inl e \<Rightarrow> Some (Inl e)
             | Inr resp \<Rightarrow>
                 if \<not> ok resp then Some (Inl (UpstreamError (status resp) (statusText resp)))
                 else (case json_result resp of
                         None \<Rightarrow> None
                       | Some (Inl e) \<Rightarrow> Some (Inl e)
                       | Some (Inr data) \<Rightarrow> Some (convertFromOllamaResponse data)))
      in (case attempt of
            None \<Rightarrow> None
          | Some (Inl error) \<Rightarrow> Some (Inl (catch_block cfg error))
          | Some (Inr r) \<Rightarrow> Some (Inr r), [rq]))"

definition generateContent ::
  "local_model_config \<Rightarrow> transport \<Rightarrow> 'a gen_request_scheme
     \<Rightarrow> (js_error + generate_content_response) option \<times> http_request list" where
  "generateContent cfg net request =
     (if provider cfg = js ''ollama'' then generateContentOllama cfg net request
      else (Some (Inl (UnsupportedProvider (provider cfg))), []))"

text \<open>
  \<^verbatim>\<open>JSON.parse\<close> is a parameter: \<open>None\<close> when it throws. The body of the \<^verbatim>\<open>for\<close> loop over
  the complete lines (lines 163-174) yields at most one chunk; every exception inside
  its \<^verbatim>\<open>try\<close> is swallowed.
\<close>

type_synonym json_parse = "jsstring \<Rightarrow> json option"

definition process_line :: "json_parse \<Rightarrow> jsstring \<Rightarrow> generate_content_response list" where
  "process_line parse line =
     (if trim line \<noteq> [] then
        (case parse line of
           None \<Rightarrow> []
         | Some data \<Rightarrow>
             (case properties data of
                Inl e \<Rightarrow> []
              | Inr d \<Rightarrow>
                  if truthy_str (response d) then
                    (case convertFromOllamaStreamResponse data of
                       Inl e \<Rightarrow> []
                     | Inr chunk \<Rightarrow> [chunk])
                  else []))
      else [])"

text \<open>
  The \<^verbatim>\<open>while (true)\<close> loop over the reads that are left: \<open>[]\<close> is \<^verbatim>\<open>done\<close>. What is
  still in the buffer at the end of the stream is not processed.
  \<^verbatim>\<open>lines.pop() || ''\<close> is the last piece.
\<close>

fun read_loop :: "json_parse \<Rightarrow> jsstring \<Rightarrow> jsstring list \<Rightarrow> generate_content_response list" where
  "read_loop parse buffer [] = []"
| "read_loop parse buffer (v # rest) =
     (let lines = split_nl (buffer @ v);
          buffer' = (case lines of [] \<Rightarrow> [] | _ \<Rightarrow> last lines)
      in concat (map (process_line parse) (butlast lines)) @ read_loop parse buffer' rest)"

text \<open>
  A generator that is consumed as far as it goes: the chunks it yielded, and then it
  returns, throws, or never settles again.
\<close>

datatype generator_end = Returns | Throws js_error | Hangs

record stream_result =
  yielded :: "generate_content_response list"
  ends :: generator_end

text \<open>What the generator does at the read that follows the chunks.\<close>

fun after_reads :: "local_model_config \<Rightarrow> stream_end \<Rightarrow> generator_end" where
  "after_reads cfg EndOfStream = Returns"
| "after_reads cfg (ReadFails e) = Throws (catch_block cfg e)"
| "after_reads cfg ReadStalls = Hangs"

definition generateContentStreamOllama ::
  "local_model_config \<Rightarrow> transport \<Rightarrow> json_parse \<Rightarrow> 'a gen_request_scheme
     \<Rightarrow> stream_result \<times> http_request list" where
  "generateContentStreamOllama cfg net parse request =
     (let prompt = convertToOllamaPrompt request;
          rq = ollama_request cfg prompt True request;
          run =
            (case fetch net timeout_ms rq of
               Inl e \<Rightarrow> \<lparr>yielded = [], ends = Throws (catch_block cfg e)\<rparr>
             | Inr resp \<Rightarrow>
                 if \<not> ok resp then
                   \<lparr>yielded = [],
                    ends = Throws (catch_block cfg (UpstreamError (status resp) (statusText resp)))\<rparr>
                 else (case body resp of
                         None \<Rightarrow> \<lparr>yielded = [], ends = Throws (catch_block cfg NoResponseBody)\<rparr>
                       | Some b \<Rightarrow>
                           \<lparr>yielded = read_loop parse [] (chunks b),
                            ends = after_reads cfg (ending b)\<rparr>))
      in (run, [rq]))"

definition generateContentStream ::
  "local_model_config \<Rightarrow> transport \<Rightarrow> json_parse \<Rightarrow> 'a gen_request_scheme
     \<Rightarrow> (js_error + stream_result) \<times> http_request list" where
  "generateContentStream cfg net parse request =
     (if provider cfg = js ''ollama'' then
        (case generateContentStreamOllama cfg net parse request of (run, sent) \<Rightarrow> (Inr run, sent))
      else (Inl (UnsupportedProvider (provider cfg)), []))"

text \<open>\<^verbatim>\<open>EmbedContentResponse\<close> is never built.\<close>

record embed_content_response =
  embeddings :: "rat list list"

definition embedContent ::
  "local_model_config \<Rightarrow> transport \<Rightarrow> 'a request_scheme
     \<Rightarrow> (js_error + embed_content_response) \<times> http_request list" where
  "embedContent cfg net request = (Inl NotSupported, [])"

section \<open>The specification's notions\<close>

text \<open>
  All text parts across all content entries, in order: every part that has a text,
  the empty text included.
\<close>

fun entries :: "content_list_union \<Rightarrow> content_entry list" where
  "entries (Single e) = [e]"
| "entries (Many es) = es"

fun entry_parts :: "content_entry \<Rightarrow> part list" where
  "entry_parts (EContent c) = (case parts c of None \<Rightarrow> [] | Some ps \<Rightarrow> ps)"
| "entry_parts (EPart p) = []"
| "entry_parts (EString s) = []"

definition text_parts :: "content_list_union \<Rightarrow> jsstring list" where
  "text_parts cl = List.map_filter part_text (concat (map entry_parts (entries cl)))"

text \<open>The specification's prompt: each text part followed by a newline, then trimmed.\<close>

definition spec_prompt :: "'a request_scheme \<Rightarrow> jsstring" where
  "spec_prompt request = trim (concat (map (\<lambda>t. t @ [nl]) (text_parts (contents request))))"

text \<open>Joining with single spaces, as \<^verbatim>\<open>Array.prototype.join(' ')\<close> does.\<close>

fun join_spaces :: "jsstring list \<Rightarrow> jsstring" where
  "join_spaces [] = []"
| "join_spaces [t] = t"
| "join_spaces (t # ts) = t @ [space] @ join_spaces ts"

text \<open>The specification's token count.\<close>

definition spec_tokens :: "'a request_scheme \<Rightarrow> nat" where
  "spec_tokens request =
     nat \<lceil>real (length (trim (join_spaces (text_parts (contents request))))) / 4\<rceil>"

text \<open>The text of a stream of complete lines: each followed by a line feed.\<close>

definition stream_text :: "jsstring list \<Rightarrow> jsstring" where
  "stream_text ls = concat (map (\<lambda>l. l @ [nl]) ls)"

text \<open>A chunk with one candidate holding one text part.\<close>

definition text_chunk :: "jsstring \<Rightarrow> finish_reason option \<Rightarrow> generate_content_response" where
  "text_chunk t fin =
     \<lparr>candidates =
        [\<lparr>content = \<lparr>parts = Some [\<lparr>part_text = Some t\<rparr>], role = Some (js ''model'')\<rparr>,
          finishReason = fin, index = 0\<rparr>],
      promptFeedback = \<lparr>safetyRatings = []\<rparr>,
      usageMetadata = None\<rparr>"

text \<open>
  The chunk of a line that parses as a JSON object with a non-empty \<open>response\<close>: that
  text, and finish reason STOP when \<open>done\<close> is true, unset otherwise.
\<close>

definition line_chunk :: "json_parse \<Rightarrow> jsstring \<Rightarrow> generate_content_response option" where
  "line_chunk parse line =
     (case parse line of
        Some (JObject d) \<Rightarrow>
          (case response d of
             Some s \<Rightarrow>
               if s \<noteq> [] then
                 Some (text_chunk s (if done_flag d = Some True then Some STOP else None))
               else None
           | None \<Rightarrow> None)
      | _ \<Rightarrow> None)"

text \<open>The shape every response and chunk is to have.\<close>

definition single_model_candidate :: "generate_content_response \<Rightarrow> bool" where
  "single_model_candidate r \<longleftrightarrow>
     (case candidates r of
        [c] \<Rightarrow>
          role (content c) = Some (js ''model'') \<and> index c = 0 \<and>
          (case parts (content c) of
             Some [p] \<Rightarrow> part_text p \<noteq> None
           | _ \<Rightarrow> False)
      | _ \<Rightarrow> False) \<and>
     safetyRatings (promptFeedback r) = []"

section \<open>Example inputs\<close>

definition example_config :: local_model_config where
  "example_config =
     \<lparr>endpoint = js ''http://localhost:11434'', model = js ''gemma3:27b'', provider = js ''ollama''\<rparr>"

definition example_request :: gen_request where
  "example_request =
     \<lparr>contents =
        Many [EContent \<lparr>parts = Some [\<lparr>part_text = Some (js ''Hello'')\<rparr>,
                                      \<lparr>part_text = Some (js ''world'')\<rparr>],
                        role = Some (js ''user'')\<rparr>],
      config = None\<rparr>"

definition example_data :: ollama_data where
  "example_data =
     \<lparr>response = Some (js ''hi''), done_flag = Some True,
      prompt_eval_count = Some (Finite 3), eval_count = Some (Finite 2)\<rparr>"

definition example_response :: http_response where
  "example_response =
     \<lparr>status = 200, statusText = js ''OK'', json_result = Some (Inr (JObject example_data)),
      body = None\<rparr>"

definition example_net :: transport where
  "example_net rq = \<lparr>settles_at = Some 50, settles_with = Inr example_response\<rparr>"

definition example_data_large :: ollama_data where
  "example_data_large =
     \<lparr>response = Some (js ''hi''), done_flag = Some True,
      prompt_eval_count = Some (Finite (2 ^ 53)), eval_count = Some (Finite 1)\<rparr>"

definition example_net_large :: transport where
  "example_net_large rq =
     \<lparr>settles_at = Some 50,
      settles_with =
        Inr \<lparr>status = 200, statusText = js ''OK'',
             json_result = Some (Inr (JObject example_data_large)), body = None\<rparr>\<rparr>"

definition example_config_vllm :: local_model_config where
  "example_config_vllm =
     \<lparr>endpoint = js ''http://localhost:8000'', model = js ''gemma3:27b'', provider = js ''vllm''\<rparr>"

definition example_parse :: json_parse where
  "example_parse line = None"

definition example_line_a :: jsstring where
  \<open>example_line_a = js ''{"response":"a","done":false}''\<close>

definition example_line_b :: jsstring where
  \<open>example_line_b = js ''{"response":"b","done":true}''\<close>

definition example_parse_lines :: json_parse where
  "example_parse_lines line =
     (if line = example_line_a then
        Some (JObject \<lparr>response = Some (js ''a''), done_flag = Some False,
                        prompt_eval_count = None, eval_count = None\<rparr>)
      else if line = example_line_b then
        Some (JObject \<lparr>response = Some (js ''b''), done_flag = Some True,
                        prompt_eval_count = None, eval_count = None\<rparr>)
      else None)"

definition example_stream_net :: "jsstring list \<Rightarrow> transport" where
  "example_stream_net reads rq =
     \<lparr>settles_at = Some 50,
      settles_with =
        Inr \<lparr>status = 200, statusText = js ''OK'', json_result = Some (Inr JNull),
             body = Some \<lparr>chunks = reads, ending = EndOfStream\<rparr>\<rparr>\<rparr>"

definition example_reads :: "jsstring list" where
  \<open>example_reads =
     [js ''{"response":"a","do'',
      js ''ne":false}'' @ [nl] @ js ''{"response":"b","done":true}'' @ [nl]]\<close>

definition example_reads_noise :: "jsstring list" where
  \<open>example_reads_noise =
     [js ''{"response":"a","done":false}'' @ [nl] @ js ''not js'',
      js ''on'' @ [nl] @ js ''{"response":"b","done":true}'' @ [nl]]\<close>

definition example_line_noise :: jsstring where
  "example_line_noise = js ''not json''"






definition example_request_gap :: gen_request where
  "example_request_gap =
     \<lparr>contents =
        Many [EContent \<lparr>parts = Some [\<lparr>part_text = Some (js ''abcd'')\<rparr>,
                                      \<lparr>part_text = Some []\<rparr>,
                                      \<lparr>part_text = Some (js ''efg'')\<rparr>],
                        role = Some (js ''user'')\<rparr>],
      config = None\<rparr>"

definition example_request_string :: gen_request where
  "example_request_string =
     \<lparr>contents = Single (EString (js ''Why is the sky blue?'')), config = None\<rparr>"

definition example_request_mixed :: gen_request where
  "example_request_mixed =
     \<lparr>contents =
        Many [EString (js ''Why''),
              EContent \<lparr>parts = Some [\<lparr>part_text = Some (js ''Hello'')\<rparr>,
                                      \<lparr>part_text = Some (js ''world'')\<rparr>],
                        role = Some (js ''user'')\<rparr>,
              EPart \<lparr>part_text = Some (js ''blue'')\<rparr>],
      config = None\<rparr>"

definition example_request_of :: "jsstring \<Rightarrow> gen_request" where
  "example_request_of t =
     \<lparr>contents = Single (EContent \<lparr>parts = Some [\<lparr>part_text = Some t\<rparr>], role = None\<rparr>),
      config = None\<rparr>"

section \<open>Strings: splitting and trimming\<close>

lemma split_nl_nonempty: "split_nl s \<noteq> []"
  by (induction s) (auto split: list.splits)

lemma split_nl_line: "nl \<notin> set l \<Longrightarrow> split_nl (l @ nl # r) = l # split_nl r"
  by (induction l) auto

lemma split_nl_stream_text:
  "\<forall>l\<in>set ls. nl \<notin> set l \<Longrightarrow> split_nl (stream_text ls @ r) = ls @ split_nl r"
  by (induction ls) (auto simp: stream_text_def split_nl_line)

lemma split_nl_append:
  "split_nl (a @ b) = butlast (split_nl a) @ split_nl (last (split_nl a) @ b)"
proof (induction a)
  case Nil
  show ?case by simp
next
  case (Cons c cs)
  obtain p ps where sp: "split_nl cs = p # ps"
    using split_nl_nonempty [of cs] by (cases "split_nl cs") auto
  show ?case
  proof (cases "c = nl")
    case True
    with Cons sp show ?thesis by simp
  next
    case False
    show ?thesis
    proof (cases ps)
      case Nil
      with Cons sp False show ?thesis by simp
    next
      case (Cons q qs)
      with Cons.IH sp False show ?thesis by simp
    qed
  qed
qed

lemma last_split_nl_free: "nl \<notin> set (last (split_nl s))"
  by (induction s) (auto simp: split_nl_nonempty split: list.splits)

lemma split_nl_free: "nl \<notin> set s \<Longrightarrow> split_nl s = [s]"
  by (induction s) auto

lemma read_loop_lines:
  "nl \<notin> set buf \<Longrightarrow> read_loop parse buf vs =
     concat (map (process_line parse) (butlast (split_nl (buf @ concat vs))))"
proof (induction vs arbitrary: buf)
  case Nil
  then show ?case by (simp add: split_nl_free)
next
  case (Cons v rest)
  let ?lines = "split_nl (buf @ v)"
  have ne: "?lines \<noteq> []" by (rule split_nl_nonempty)
  then have pop: "(case ?lines of [] \<Rightarrow> [] | _ \<Rightarrow> last ?lines) = last ?lines"
    by (cases ?lines) auto
  have free: "nl \<notin> set (last ?lines)" by (rule last_split_nl_free)
  have "split_nl (buf @ concat (v # rest)) =
          butlast ?lines @ split_nl (last ?lines @ concat rest)"
    using split_nl_append [of "buf @ v" "concat rest"] by simp
  then have "butlast (split_nl (buf @ concat (v # rest))) =
          butlast ?lines @ butlast (split_nl (last ?lines @ concat rest))"
    by (simp add: butlast_append split_nl_nonempty)
  then show ?case using Cons.IH [OF free] pop by (simp add: Let_def)
qed

lemma read_loop_stream_text:
  assumes "\<forall>l\<in>set ls. nl \<notin> set l" and "concat vs = stream_text ls"
  shows "read_loop parse [] vs = concat (map (process_line parse) ls)"
proof -
  have "split_nl (stream_text ls) = ls @ [[]]"
    using split_nl_stream_text [OF assms(1), of "[]"] by simp
  then show ?thesis using read_loop_lines [of "[]" parse vs] assms(2) by simp
qed

text \<open>
  A last line without its line feed stays in the buffer and is never processed.
\<close>

lemma read_loop_unterminated_tail:
  assumes "\<forall>l\<in>set ls. nl \<notin> set l" and "nl \<notin> set tail"
    and "concat vs = stream_text ls @ tail"
  shows "read_loop parse [] vs = concat (map (process_line parse) ls)"
proof -
  have "split_nl (stream_text ls @ tail) = ls @ [tail]"
    using split_nl_stream_text [OF assms(1), of tail] assms(2) by (simp add: split_nl_free)
  then show ?thesis using read_loop_lines [of "[]" parse vs] assms(3) by simp
qed

lemma dropWhile_all: "\<forall>x\<in>set xs. P x \<Longrightarrow> dropWhile P xs = []"
  by (induction xs) auto

lemma trim_snoc_ws: "is_ws c \<Longrightarrow> trim (s @ [c]) = trim s"
proof (cases "\<forall>x\<in>set s. is_ws x")
  case True
  assume "is_ws c"
  with True show ?thesis by (simp add: trim_def dropWhile_all)
next
  case False
  assume c: "is_ws c"
  from False obtain x where "x \<in> set s" and "\<not> is_ws x" by blast
  then have "dropWhile is_ws (s @ [c]) = dropWhile is_ws s @ [c]"
    by (rule dropWhile_append1)
  with c show ?thesis by (simp add: trim_def)
qed

lemma trim_Nil: "trim [] = []" by (simp add: trim_def)

lemma is_ws_space: "is_ws space" by (simp add: is_ws_def space_def)

section \<open>Text extraction\<close>

lemma append_parts_eq:
  "append_parts sep acc ps = acc @ concat (map (\<lambda>t. t @ [sep]) (List.map_filter truthy_text ps))"
  by (induction ps arbitrary: acc) (auto simp: map_filter_simps split: option.splits)

lemma append_contents_eq:
  "append_contents sep acc cs =
     acc @ concat (map (\<lambda>t. t @ [sep])
       (concat (map (\<lambda>c. case parts c of None \<Rightarrow> [] | Some ps \<Rightarrow> List.map_filter truthy_text ps) cs)))"
  by (induction cs arbitrary: acc) (auto simp: append_parts_eq split: option.splits)

lemma truthy_texts: "List.map_filter truthy_text ps = filter (\<lambda>t. t \<noteq> []) (List.map_filter part_text ps)"
  by (induction ps) (auto simp: map_filter_simps truthy_text_def split: option.splits)

lemma map_filter_app: "List.map_filter f (xs @ ys) = List.map_filter f xs @ List.map_filter f ys"
  by (simp add: List.map_filter_def)

lemma as_content_parts:
  "concat (map (\<lambda>c. case parts c of None \<Rightarrow> [] | Some ps \<Rightarrow> List.map_filter truthy_text ps)
      (concat (map as_content (filter is_content es))))
   = filter (\<lambda>t. t \<noteq> []) (List.map_filter part_text (concat (map entry_parts es)))"
proof (induction es)
  case Nil
  show ?case by (simp add: map_filter_simps)
next
  case (Cons e es)
  show ?case
  proof (cases e)
    case (EContent c)
    with Cons show ?thesis
      by (cases "parts c") (simp_all add: truthy_texts map_filter_app)
  qed (use Cons in simp_all)
qed

lemma content_list_texts:
  "concat (map (\<lambda>c. case parts c of None \<Rightarrow> [] | Some ps \<Rightarrow> List.map_filter truthy_text ps)
      (content_list cl))
   = filter (\<lambda>t. t \<noteq> []) (text_parts cl)"
proof (cases cl)
  case (Many es)
  then show ?thesis by (simp add: text_parts_def as_content_parts)
next
  case (Single e)
  then show ?thesis using as_content_parts [of "[e]"] by (cases e) (simp_all add: text_parts_def)
qed

lemma extracted_eq:
  "append_contents sep [] (content_list cl) =
     concat (map (\<lambda>t. t @ [sep]) (filter (\<lambda>t. t \<noteq> []) (text_parts cl)))"
  by (simp add: append_contents_eq content_list_texts)

lemma concat_space_join:
  "concat (map (\<lambda>t. t @ [space]) ts) = (if ts = [] then [] else join_spaces ts @ [space])"
  by (induction ts rule: join_spaces.induct) simp_all

lemma trim_concat_space: "trim (concat (map (\<lambda>t. t @ [space]) ts)) = trim (join_spaces ts)"
  by (cases "ts = []") (simp_all add: concat_space_join trim_snoc_ws is_ws_space)

lemma ceil_div4_ceiling: "ceil_div4 n = nat \<lceil>real n / 4\<rceil>"
proof -
  have "\<lceil>real n / 4\<rceil> = \<lceil>of_int (int n) / (of_int 4 :: real)\<rceil>" by simp
  also have "\<dots> = - (- int n div 4)" by (rule ceiling_divide_eq_div)
  also have "\<dots> = (int n + 3) div 4" by presburger
  finally show ?thesis by (simp add: ceil_div4_def nat_div_distrib nat_add_distrib)
qed

lemma ceil_div4_mono: "m \<le> n \<Longrightarrow> ceil_div4 m \<le> ceil_div4 n"
  by (simp add: ceil_div4_def div_le_mono)

lemma prompt_eq:
  "convertToOllamaPrompt request =
     trim (concat (map (\<lambda>t. t @ [nl]) (filter (\<lambda>t. t \<noteq> []) (text_parts (contents request)))))"
  by (simp add: convertToOllamaPrompt_def extracted_eq)

lemma extract_eq:
  "extractTextFromRequest request =
     trim (join_spaces (filter (\<lambda>t. t \<noteq> []) (text_parts (contents request))))"
  by (simp add: extractTextFromRequest_def extracted_eq trim_concat_space)

lemma example_request_prompt:
  "convertToOllamaPrompt example_request = js ''Hello'' @ [nl] @ js ''world''"
  by (simp add: convertToOllamaPrompt_def example_request_def truthy_text_def js_def trim_def
      is_ws_def nl_def)

lemma no_content_no_text:
  assumes "\<forall>e\<in>set (entries cl). \<forall>c. e \<noteq> EContent c"
  shows "text_parts cl = []"
proof -
  have "entry_parts e = []" if "\<forall>c. e \<noteq> EContent c" for e
    using that by (cases e) simp_all
  with assms have "concat (map entry_parts (entries cl)) = []" by (simp add: concat_eq_Nil_conv)
  then show ?thesis unfolding text_parts_def by (simp only: map_filter_simps)
qed

lemma filter_content_texts:
  "text_parts (Many (filter (\<lambda>e. case e of EContent c \<Rightarrow> True | _ \<Rightarrow> False) es)) = text_parts (Many es)"
proof -
  have "concat (map entry_parts (filter (\<lambda>e. case e of EContent c \<Rightarrow> True | _ \<Rightarrow> False) es))
      = concat (map entry_parts es)"
    by (induction es) (auto split: content_entry.splits)
  then show ?thesis by (simp add: text_parts_def)
qed

section \<open>Numbers\<close>

lemma round_half_even_int: "round_half_even (of_int z) = z"
  by (simp add: round_half_even_def)

lemma round_half_even_tie: "even z \<Longrightarrow> round_half_even (of_int z + 1 / 2) = z"
proof -
  assume e: "even z"
  have f: "\<lfloor>(of_int z + 1 / 2 :: rat)\<rfloor> = z" by linarith
  show ?thesis unfolding round_half_even_def Let_def f using e by simp
qed

text \<open>An integer of magnitude at most \<open>2^p\<close> is a value of the format: rounding keeps it.\<close>

lemma round_to_binary_exact:
  assumes "\<bar>s\<bar> \<le> 2 ^ p" and "0 < p" and "p + m < h"
  shows "round_to_binary p m h (of_int s) = Finite (of_int s)"
proof (cases "s = 0")
  case True
  then show ?thesis by (simp add: round_to_binary_def round_half_even_def)
next
  case False
  define a where "a = \<bar>s\<bar>"
  have a: "0 < a" "a \<le> 2 ^ p" using False assms(1) by (simp_all add: a_def)
  define k where "k = nat (bitlen (a * 2 ^ m) - int p)"
  have u: "\<bar>of_int s :: rat\<bar> * 2 ^ m = of_int (a * 2 ^ m)" by (simp add: a_def)
  have bl: "bitlen (a * 2 ^ m) = bitlen a + int m" using a(1) by simp
  have "a < 2 ^ (p + 1)" using a(2) by (simp add: le_less_trans [of a "2 ^ p"])
  then have le: "bitlen a \<le> int p + 1"
    by (simp add: bitlen_le_iff_power nat_add_distrib)
  have dv: "(2::int) ^ k dvd a * 2 ^ m"
  proof (cases "bitlen a \<le> int p")
    case True
    then have "k \<le> m" by (simp add: k_def bl)
    then have "(2::int) ^ k dvd 2 ^ m" by (simp add: le_imp_power_dvd)
    then show ?thesis by simp
  next
    case False
    with le have b: "bitlen a = int p + 1" by simp
    then have k: "k = m + 1" by (simp add: k_def bl)
    have "\<not> a < 2 ^ p" using b bitlen_le_iff_power [of a "int p"] by simp
    with a(2) have "a = 2 ^ p" by simp
    then have "a * 2 ^ m = 2 ^ (p + m)" by (simp add: power_add)
    moreover have "(2::int) ^ k dvd 2 ^ (p + m)"
      using assms(2) k by (intro le_imp_power_dvd) simp
    ultimately show ?thesis by simp
  qed
  then obtain z where z: "a * 2 ^ m = z * 2 ^ k" by (auto simp: dvd_def mult.commute)
  have q: "(of_int (a * 2 ^ m) :: rat) / 2 ^ k = of_int z"
    by (simp add: z)
  have n: "round_half_even (of_int (a * 2 ^ m) / 2 ^ k) * 2 ^ k = a * 2 ^ m"
    by (simp add: q round_half_even_int z)
  have "a * 2 ^ m \<le> 2 ^ p * 2 ^ m" using a(2) by simp
  also have "\<dots> = 2 ^ (p + m)" by (simp add: power_add)
  also have "\<dots> < (2::int) ^ h" using assms(3) by simp
  finally have small: "\<not> 2 ^ h \<le> a * 2 ^ m" by simp
  have fl: "\<lfloor>(of_int (a * 2 ^ m) :: rat)\<rfloor> = a * 2 ^ m" by (rule floor_of_int)
  have "sgn (of_int s :: rat) * of_int (a * 2 ^ m) / 2 ^ m = of_int s"
    by (simp add: a_def sgn_if)
  then show ?thesis
    unfolding round_to_binary_def Let_def u fl k_def [symmetric] n using small by simp
qed

text \<open>\<open>2^p + 1\<close> lies halfway between two values of the format and goes to \<open>2^p\<close>.\<close>

lemma round_to_binary_tie:
  assumes "2 \<le> p" and "p + m < h"
  shows "round_to_binary p m h (2 ^ p + 1) = Finite (2 ^ p)"
proof -
  define a :: int where "a = 2 ^ p + 1"
  have u: "\<bar>2 ^ p + 1 :: rat\<bar> * 2 ^ m = of_int (a * 2 ^ m)" by (simp add: a_def)
  have "(1::int) < 2 ^ p" using assms(1) by (simp add: one_less_power)
  then have "bitlen a = int p + 1"
    unfolding a_def using bitlen_twopow_add_eq [of 1 p] by simp
  then have bl: "bitlen (a * 2 ^ m) = int p + 1 + int m" by (simp add: a_def)
  have k: "nat (bitlen (a * 2 ^ m) - int p) = m + 1" by (simp add: bl)
  obtain p' where p': "p = Suc (Suc p')" using assms(1) by (metis add_2_eq_Suc le_Suc_ex)
  have q: "(of_int (a * 2 ^ m) :: rat) / 2 ^ (m + 1) = of_int (2 ^ (p - 1)) + 1 / 2"
    by (simp add: a_def p' field_simps)
  have ev: "even ((2::int) ^ (p - 1))" by (simp add: p')
  have n: "round_half_even (of_int (a * 2 ^ m) / 2 ^ (m + 1)) * 2 ^ (m + 1) = 2 ^ (p + m)"
    unfolding q round_half_even_tie [OF ev] by (simp add: p' power_add)
  have small: "\<not> (2::int) ^ h \<le> 2 ^ (p + m)" using assms(2) by simp
  have fl: "\<lfloor>(of_int (a * 2 ^ m) :: rat)\<rfloor> = a * 2 ^ m" by (rule floor_of_int)
  have "(0::rat) < 2 ^ p + 1" by (rule add_pos_pos) simp_all
  then have pos: "sgn (2 ^ p + 1 :: rat) = 1" by simp
  show ?thesis
    unfolding round_to_binary_def Let_def u fl k n pos using small by (simp add: power_add)
qed

lemma to_double_exact: "\<bar>s\<bar> \<le> 2 ^ 53 \<Longrightarrow> to_double (of_int s) = Finite (of_int s)"
  unfolding to_double_def by (rule round_to_binary_exact) simp_all

lemma to_double_tie: "to_double (2 ^ 53 + 1) = Finite (2 ^ 53)"
  unfolding to_double_def by (rule round_to_binary_tie) simp_all

lemma number_add_ints:
  "\<bar>a + b\<bar> \<le> 2 ^ 53 \<Longrightarrow>
     number_add (Finite (of_int a)) (Finite (of_int b)) = Finite (of_int (a + b))"
  using to_double_exact [of "a + b"] by simp

lemma number_add_tie: "number_add (Finite (2 ^ 53)) (Finite 1) = Finite (2 ^ 53)"
  using to_double_tie by simp

lemma to_double_5: "to_double 5 = Finite 5"
  using to_double_exact [of 5] by simp

lemma or_num_default:
  "v \<noteq> Some NaN \<Longrightarrow> or_num v (Finite 0) = (case v of None \<Rightarrow> Finite 0 | Some n \<Rightarrow> n)"
proof (cases v)
  case None
  then show ?thesis by (simp add: or_num_def)
next
  case (Some n)
  assume "v \<noteq> Some NaN"
  with Some show ?thesis by (cases n) (simp_all add: or_num_def)
qed

section \<open>Conversions and the transport\<close>

lemma or_str_default: "or_str v [] = (case v of None \<Rightarrow> [] | Some s \<Rightarrow> s)"
  by (simp add: or_str_def split: option.splits)

lemma truthy_bool_iff: "truthy_bool v \<longleftrightarrow> v = Some True"
  by (simp add: truthy_bool_def split: option.splits)

lemma fetch_settled:
  "settles_at (net rq) = Some t \<Longrightarrow> t < timer \<Longrightarrow> fetch net timer rq = settles_with (net rq)"
  by (simp add: fetch_def)



lemma convertFromOllamaResponse_shape:
  assumes "convertFromOllamaResponse data = Inr r"
  shows "single_model_candidate r"
proof (cases "properties data")
  case (Inl e)
  with assms show ?thesis by (simp add: convertFromOllamaResponse_def)
next
  case (Inr d)
  then have "single_model_candidate (projr (convertFromOllamaResponse data))"
    by (simp add: convertFromOllamaResponse_def single_model_candidate_def)
  with assms show ?thesis by simp
qed

lemma process_line_nonblank:
  assumes "trim line \<noteq> []"
  shows "process_line parse line = (case line_chunk parse line of None \<Rightarrow> [] | Some c \<Rightarrow> [c])"
proof (cases "parse line")
  case None
  with assms show ?thesis by (simp add: process_line_def line_chunk_def)
next
  case (Some data)
  show ?thesis
  proof (cases data)
    case JNull
    with Some assms show ?thesis by (simp add: process_line_def line_chunk_def)
  next
    case JOther
    with Some assms show ?thesis
      by (simp add: process_line_def line_chunk_def no_fields_def truthy_str_def)
  next
    case (JObject d)
    show ?thesis
    proof (cases "response d")
      case None
      with Some JObject assms show ?thesis
        by (simp add: process_line_def line_chunk_def truthy_str_def)
    next
      case (Some s)
      with \<open>parse line = Some data\<close> JObject assms show ?thesis
        by (simp add: process_line_def line_chunk_def truthy_str_def
            convertFromOllamaStreamResponse_def text_chunk_def or_str_def truthy_bool_def
            split: option.splits)
    qed
  qed
qed

lemma process_line_blank: "trim line = [] \<Longrightarrow> process_line parse line = []"
  by (simp add: process_line_def)


lemma text_chunk_shape: "single_model_candidate (text_chunk s fin)"
  by (simp add: text_chunk_def single_model_candidate_def)

lemma line_chunk_shape:
  assumes "line_chunk parse line = Some c"
  shows "single_model_candidate c"
proof -
  from assms obtain s fin where "c = text_chunk s fin"
    by (auto simp: line_chunk_def split: option.splits json.splits if_splits)
  then show ?thesis by (simp add: text_chunk_shape)
qed

lemma process_line_shape:
  assumes "c \<in> set (process_line parse line)"
  shows "single_model_candidate c"
proof (cases "trim line = []")
  case True
  with assms show ?thesis by (simp add: process_line_blank)
next
  case False
  with assms have "line_chunk parse line = Some c"
    by (cases "line_chunk parse line") (simp_all add: process_line_nonblank)
  then show ?thesis by (rule line_chunk_shape)
qed

lemma read_loop_shape: "c \<in> set (read_loop parse buf vs) \<Longrightarrow> single_model_candidate c"
proof (induction vs arbitrary: buf)
  case Nil
  then show ?case by simp
next
  case (Cons v rest)
  then show ?case by (auto simp: Let_def dest: process_line_shape)
qed

lemma process_lines_nonblank:
  "\<forall>l\<in>set ls. trim l \<noteq> [] \<Longrightarrow>
     concat (map (process_line parse) ls) = List.map_filter (line_chunk parse) ls"
  by (induction ls) (auto simp: process_line_nonblank map_filter_simps split: option.splits)

lemma stream_run:
  assumes "provider cfg = js ''ollama''"
    and "rq = ollama_request cfg (convertToOllamaPrompt request) True request"
    and "settles_at (net rq) = Some t" and "t < 120000"
    and "settles_with (net rq) = Inr resp" and "ok resp"
    and "body resp = Some b"
  shows "fst (generateContentStream cfg net parse request) =
     Inr \<lparr>yielded = read_loop parse [] (chunks b),
          ends = after_reads cfg (ending b)\<rparr>"
proof -
  have "fetch net timeout_ms rq = Inr resp"
    using assms(3,4,5) by (simp add: fetch_settled timeout_ms_def)
  then show ?thesis
    using assms(1,2,6,7)
    by (simp add: generateContentStream_def generateContentStreamOllama_def Let_def)
qed

section \<open>Outcomes of the two Ollama paths\<close>

lemma generate_result:
  assumes "provider cfg = js ''ollama''"
    and "rq = ollama_request cfg (convertToOllamaPrompt request) False request"
  shows "fst (generateContent cfg net request) =
     (case (case fetch net timeout_ms rq of
              Inl e \<Rightarrow> Some (Inl e)
            | Inr resp \<Rightarrow>
                if \<not> ok resp then Some (Inl (UpstreamError (status resp) (statusText resp)))
                else (case json_result resp of
                        None \<Rightarrow> None
                      | Some (Inl e) \<Rightarrow> Some (Inl e)
                      | Some (Inr data) \<Rightarrow> Some (convertFromOllamaResponse data))) of
        None \<Rightarrow> None
      | Some (Inl error) \<Rightarrow> Some (Inl (catch_block cfg error))
      | Some (Inr r) \<Rightarrow> Some (Inr r))"
  using assms by (simp add: generateContent_def generateContentOllama_def Let_def)

lemma stream_result:
  assumes "provider cfg = js ''ollama''"
    and "rq = ollama_request cfg (convertToOllamaPrompt request) True request"
  shows "fst (generateContentStream cfg net parse request) =
     Inr (case fetch net timeout_ms rq of
            Inl e \<Rightarrow> \<lparr>yielded = [], ends = Throws (catch_block cfg e)\<rparr>
          | Inr resp \<Rightarrow>
              if \<not> ok resp then
                \<lparr>yielded = [],
                 ends = Throws (catch_block cfg (UpstreamError (status resp) (statusText resp)))\<rparr>
              else (case body resp of
                      None \<Rightarrow> \<lparr>yielded = [], ends = Throws (catch_block cfg NoResponseBody)\<rparr>
                    | Some b \<Rightarrow>
                        \<lparr>yielded = read_loop parse [] (chunks b),
                         ends = after_reads cfg (ending b)\<rparr>))"
  using assms by (simp add: generateContentStream_def generateContentStreamOllama_def Let_def)







section \<open>Facts about the example inputs\<close>

lemma example_lines_nl_free: "nl \<notin> set example_line_a" "nl \<notin> set example_line_b"
  by (simp_all add: example_line_a_def example_line_b_def js_def nl_def)

lemma example_lines_nonblank: "trim example_line_a \<noteq> []" "trim example_line_b \<noteq> []"
  by (simp_all add: example_line_a_def example_line_b_def js_def trim_def is_ws_def)

lemma example_lines_differ: "example_line_b \<noteq> example_line_a"
  by (simp add: example_line_a_def example_line_b_def js_def)

lemma example_reads_text: "concat example_reads = stream_text [example_line_a, example_line_b]"
  by (simp add: example_reads_def stream_text_def example_line_a_def example_line_b_def js_def)

lemma example_noise_facts:
  "nl \<notin> set example_line_noise" "trim example_line_noise \<noteq> []"
  "example_parse_lines example_line_noise = None"
  by (simp_all add: example_line_noise_def example_parse_lines_def example_line_a_def
      example_line_b_def js_def nl_def trim_def is_ws_def)

lemma example_reads_noise_text:
  "concat example_reads_noise = stream_text ([example_line_a] @ [example_line_noise] @ [example_line_b])"
  by (simp add: example_reads_noise_def stream_text_def example_line_a_def example_line_b_def
      example_line_noise_def js_def)

lemma example_chunks:
  "process_line example_parse_lines example_line_a = [text_chunk (js ''a'') None]"
  "process_line example_parse_lines example_line_b = [text_chunk (js ''b'') (Some STOP)]"
  by (simp_all add: process_line_nonblank example_lines_nonblank line_chunk_def
      example_parse_lines_def example_lines_differ js_def)

lemma example_provider: "provider example_config = js ''ollama''"
  by (simp add: example_config_def)



lemma example_generate_result:
  "fst (generateContent example_config example_net example_request) =
     Some (Inr \<lparr>candidates =
            [\<lparr>content = \<lparr>parts = Some [\<lparr>part_text = Some (js ''hi'')\<rparr>], role = Some (js ''model'')\<rparr>,
              finishReason = Some STOP, index = 0\<rparr>],
          promptFeedback = \<lparr>safetyRatings = []\<rparr>,
          usageMetadata =
            Some \<lparr>promptTokenCount = Finite 3, candidatesTokenCount = Finite 2,
                  totalTokenCount = Finite 5\<rparr>\<rparr>)"
proof -
  have "fetch example_net timeout_ms rq = Inr example_response" for rq
    by (simp add: fetch_def example_net_def timeout_ms_def)
  then show ?thesis
    using generate_result
      [where net = example_net and request = example_request, OF example_provider refl]
    by (simp add: ok_def example_response_def convertFromOllamaResponse_def example_data_def
        or_str_def or_num_def truthy_bool_def to_double_5 js_def)
qed

lemma example_stream_result:
  "fst (generateContentStream example_config (example_stream_net example_reads)
          example_parse_lines example_request) =
     Inr \<lparr>yielded = [text_chunk (js ''a'') None, text_chunk (js ''b'') (Some STOP)],
          ends = Returns\<rparr>"
proof -
  have "fetch (example_stream_net example_reads) timeout_ms rq =
      Inr \<lparr>status = 200, statusText = js ''OK'', json_result = Some (Inr JNull),
           body = Some \<lparr>chunks = example_reads, ending = EndOfStream\<rparr>\<rparr>" for rq
    by (simp add: fetch_def example_stream_net_def timeout_ms_def)
  moreover have "read_loop example_parse_lines [] example_reads =
      concat (map (process_line example_parse_lines) [example_line_a, example_line_b])"
    by (rule read_loop_stream_text) (simp_all add: example_lines_nl_free example_reads_text)
  ultimately show ?thesis
    using stream_result
      [where net = "example_stream_net example_reads" and request = example_request
         and parse = example_parse_lines, OF example_provider refl]
    by (simp add: ok_def example_chunks)
qed

lemma example_lengths:
  "length (extractTextFromRequest (example_request_of [])) = 0"
  "length (extractTextFromRequest (example_request_of (js ''abcd''))) = 4"
  "length (extractTextFromRequest (example_request_of (js ''abcde''))) = 5"
  by (simp_all add: extractTextFromRequest_def example_request_of_def truthy_text_def js_def
      trim_def is_ws_def space_def)

lemma to_double_tie_numeral: "to_double 9007199254740993 = Finite 9007199254740992"
  using to_double_tie by simp

lemma example_large_result:
  "fst (generateContent example_config example_net_large example_request) =
     Some (Inr \<lparr>candidates =
            [\<lparr>content = \<lparr>parts = Some [\<lparr>part_text = Some (js ''hi'')\<rparr>], role = Some (js ''model'')\<rparr>,
              finishReason = Some STOP, index = 0\<rparr>],
          promptFeedback = \<lparr>safetyRatings = []\<rparr>,
          usageMetadata =
            Some \<lparr>promptTokenCount = Finite (2 ^ 53), candidatesTokenCount = Finite 1,
                  totalTokenCount = Finite (2 ^ 53)\<rparr>\<rparr>)"
proof -
  have "fetch example_net_large timeout_ms rq =
      Inr \<lparr>status = 200, statusText = js ''OK'',
           json_result = Some (Inr (JObject example_data_large)), body = None\<rparr>" for rq
    by (simp add: fetch_def example_net_large_def timeout_ms_def)
  then show ?thesis
    using generate_result
      [where net = example_net_large and request = example_request, OF example_provider refl]
    by (simp add: ok_def convertFromOllamaResponse_def example_data_large_def
        or_str_def or_num_def truthy_bool_def to_double_tie_numeral js_def)
qed



section \<open>The claims\<close>

text \<open>
  C1 (as amended). When the provider answers a buffered call in time with a 2xx status
  and a JSON object, \<open>generateContent\<close> returns one candidate with role "model" and one
  text part equal to the object's \<open>response\<close> (empty when absent), finish reason STOP when
  \<open>done\<close> is true and MAX_TOKENS otherwise, and usage counters copied from
  \<open>prompt_eval_count\<close> and \<open>eval_count\<close> (0 when absent); the total is their sum in double
  precision, which is their exact sum whenever both are integers and that sum has
  magnitude at most \<open>2^53\<close>. A JSON text has no NaN, so no counter is NaN. The witness is
  the object \<open>{response: "hi", done: true, prompt_eval_count: 3, eval_count: 2}\<close>.
\<close>

theorem generateContent_maps_ollama_object:
  assumes "provider cfg = js ''ollama''"
    and "rq = ollama_request cfg (convertToOllamaPrompt request) False request"
    and "settles_at (net rq) = Some t" and "t < 120000"
    and "settles_with (net rq) = Inr resp" and "ok resp"
    and "json_result resp = Some (Inr (JObject d))"
    and "prompt_eval_count d \<noteq> Some NaN" and "eval_count d \<noteq> Some NaN"
    and "p = (case prompt_eval_count d of None \<Rightarrow> Finite 0 | Some n \<Rightarrow> n)"
    and "e = (case eval_count d of None \<Rightarrow> Finite 0 | Some n \<Rightarrow> n)"
  shows "fst (generateContent cfg net request) =
     Some (Inr \<lparr>candidates =
            [\<lparr>content =
                \<lparr>parts = Some [\<lparr>part_text = Some (case response d of None \<Rightarrow> [] | Some s \<Rightarrow> s)\<rparr>],
                 role = Some (js ''model'')\<rparr>,
              finishReason = Some (if done_flag d = Some True then STOP else MAX_TOKENS),
              index = 0\<rparr>],
          promptFeedback = \<lparr>safetyRatings = []\<rparr>,
          usageMetadata =
            Some \<lparr>promptTokenCount = p, candidatesTokenCount = e,
                  totalTokenCount = number_add p e\<rparr>\<rparr>)
     \<and> (\<forall>a b. p = Finite (of_int a) \<and> e = Finite (of_int b) \<and> \<bar>a + b\<bar> \<le> 2 ^ 53
          \<longrightarrow> number_add p e = Finite (of_int (a + b)))"
proof -
  have "fetch net timeout_ms rq = Inr resp"
    using assms(3,4,5) by (simp add: fetch_settled timeout_ms_def)
  then have first: "fst (generateContent cfg net request) =
     Some (Inr \<lparr>candidates =
            [\<lparr>content =
                \<lparr>parts = Some [\<lparr>part_text = Some (case response d of None \<Rightarrow> [] | Some s \<Rightarrow> s)\<rparr>],
                 role = Some (js ''model'')\<rparr>,
              finishReason = Some (if done_flag d = Some True then STOP else MAX_TOKENS),
              index = 0\<rparr>],
          promptFeedback = \<lparr>safetyRatings = []\<rparr>,
          usageMetadata =
            Some \<lparr>promptTokenCount = p, candidatesTokenCount = e,
                  totalTokenCount = number_add p e\<rparr>\<rparr>)"
    using assms(1,2,6,7,10,11) or_num_default [OF assms(8)] or_num_default [OF assms(9)]
    by (simp add: generateContent_def generateContentOllama_def Let_def
        convertFromOllamaResponse_def or_str_default truthy_bool_iff)
  have "\<forall>a b. p = Finite (of_int a) \<and> e = Finite (of_int b) \<and> \<bar>a + b\<bar> \<le> 2 ^ 53
          \<longrightarrow> number_add p e = Finite (of_int (a + b))"
    using number_add_ints by blast
  with first show ?thesis by (rule conjI)
qed

theorem generateContent_maps_ollama_object_witness:
  "fst (generateContent example_config example_net example_request) =
     Some (Inr \<lparr>candidates =
            [\<lparr>content = \<lparr>parts = Some [\<lparr>part_text = Some (js ''hi'')\<rparr>], role = Some (js ''model'')\<rparr>,
              finishReason = Some STOP, index = 0\<rparr>],
          promptFeedback = \<lparr>safetyRatings = []\<rparr>,
          usageMetadata =
            Some \<lparr>promptTokenCount = Finite 3, candidatesTokenCount = Finite 2,
                  totalTokenCount = Finite 5\<rparr>\<rparr>)"
proof -
  have p: "provider example_config = js ''ollama''"
    by (simp add: example_config_def)
  have s: "settles_at (example_net rq) = Some 50" "(50::nat) < 120000"
    "settles_with (example_net rq) = Inr example_response" for rq
    by (simp_all add: example_net_def)
  have k: "ok example_response"
    "json_result example_response = Some (Inr (JObject example_data))"
    "prompt_eval_count example_data \<noteq> Some NaN" "eval_count example_data \<noteq> Some NaN"
    by (simp_all add: ok_def example_response_def example_data_def)
  have v: "Finite 3 = (case prompt_eval_count example_data of None \<Rightarrow> Finite 0 | Some n \<Rightarrow> n)"
    "Finite 2 = (case eval_count example_data of None \<Rightarrow> Finite 0 | Some n \<Rightarrow> n)"
    by (simp_all add: example_data_def)
  note th = generateContent_maps_ollama_object
    [where net = example_net and request = example_request, OF p refl s k v]
  from th [THEN conjunct2, rule_format, of 3 2]
  have "number_add (Finite 3) (Finite 2) = Finite 5" by simp
  with th [THEN conjunct1] show ?thesis by (simp add: example_data_def)
qed

text \<open>
  The claim as stated fails on the counters \<open>2^53\<close> and 1: the total is \<open>2^53\<close>, not their
  sum \<open>2^53 + 1\<close>, which no double holds.
\<close>

theorem total_beyond_2_53_is_rounded_counterexample:
  "fst (generateContent example_config example_net_large example_request) =
     Some (Inr \<lparr>candidates =
            [\<lparr>content = \<lparr>parts = Some [\<lparr>part_text = Some (js ''hi'')\<rparr>], role = Some (js ''model'')\<rparr>,
              finishReason = Some STOP, index = 0\<rparr>],
          promptFeedback = \<lparr>safetyRatings = []\<rparr>,
          usageMetadata =
            Some \<lparr>promptTokenCount = Finite (2 ^ 53), candidatesTokenCount = Finite 1,
                  totalTokenCount = Finite (2 ^ 53)\<rparr>\<rparr>)
   \<and> Finite (2 ^ 53) \<noteq> Finite (2 ^ 53 + 1)"
  by (simp add: example_large_result)

text \<open>
  C2. When the provider answers a streamed call in time with a 2xx status and a body whose
  text is a sequence of complete (newline-terminated) non-blank lines, however the reads
  cut that text, \<open>generateContentStream\<close> yields, in the order of the lines, one chunk
  for each line that parses as a JSON object with a non-empty \<open>response\<close>: a single
  candidate with role "model", that text, finish reason STOP when \<open>done\<close> is true and
  unset otherwise, and no usage counters. The witness is the stream of the two lines
  \<open>{"response":"a","done":false}\<close> and \<open>{"response":"b","done":true}\<close>, cut inside
  the first line.
\<close>

theorem stream_yields_chunk_per_response_line:
  assumes "provider cfg = js ''ollama''"
    and "rq = ollama_request cfg (convertToOllamaPrompt request) True request"
    and "settles_at (net rq) = Some t" and "t < 120000"
    and "settles_with (net rq) = Inr resp" and "ok resp"
    and "body resp = Some b"
    and "concat (chunks b) = stream_text ls"
    and "\<forall>l\<in>set ls. nl \<notin> set l \<and> trim l \<noteq> []"
  shows "fst (generateContentStream cfg net parse request) =
     Inr \<lparr>yielded = List.map_filter (line_chunk parse) ls,
          ends = after_reads cfg (ending b)\<rparr>"
proof -
  have "read_loop parse [] (chunks b) = concat (map (process_line parse) ls)"
    using assms(8,9) by (intro read_loop_stream_text) auto
  also have "\<dots> = List.map_filter (line_chunk parse) ls"
    using assms(9) by (intro process_lines_nonblank) auto
  finally show ?thesis
    using stream_run [where net = net and parse = parse, OF assms(1-7)] by simp
qed

theorem stream_yields_chunk_per_response_line_witness:
  "fst (generateContentStream example_config (example_stream_net example_reads)
          example_parse_lines example_request) =
     Inr \<lparr>yielded = [text_chunk (js ''a'') None, text_chunk (js ''b'') (Some STOP)],
          ends = Returns\<rparr>"
proof -
  have p: "provider example_config = js ''ollama''"
    by (simp add: example_config_def)
  have s: "settles_at (example_stream_net example_reads rq) = Some 50" "(50::nat) < 120000"
    "settles_with (example_stream_net example_reads rq) =
       Inr \<lparr>status = 200, statusText = js ''OK'', json_result = Some (Inr JNull),
            body = Some \<lparr>chunks = example_reads, ending = EndOfStream\<rparr>\<rparr>" for rq
    by (simp_all add: example_stream_net_def)
  have k: "ok \<lparr>status = 200, statusText = js ''OK'', json_result = Some (Inr JNull),
            body = Some \<lparr>chunks = example_reads, ending = EndOfStream\<rparr>\<rparr>"
    by (simp add: ok_def)
  have b: "body \<lparr>status = 200, statusText = js ''OK'', json_result = Some (Inr JNull),
            body = Some \<lparr>chunks = example_reads, ending = EndOfStream\<rparr>\<rparr>
          = Some \<lparr>chunks = example_reads, ending = EndOfStream\<rparr>"
    by simp
  have t: "concat (chunks \<lparr>chunks = example_reads, ending = EndOfStream\<rparr>)
          = stream_text [example_line_a, example_line_b]"
    by (simp add: example_reads_text)
  have l: "\<forall>l\<in>set [example_line_a, example_line_b]. nl \<notin> set l \<and> trim l \<noteq> []"
    by (simp add: example_lines_nl_free example_lines_nonblank)
  show ?thesis
    using stream_yields_chunk_per_response_line
      [where net = "example_stream_net example_reads" and parse = example_parse_lines
         and request = example_request, OF p refl s k b t l]
    by (simp add: map_filter_simps line_chunk_def example_parse_lines_def example_lines_differ
        js_def)
qed

text \<open>
  C3 (as amended). The prompt is the concatenation, in order, of all non-empty text parts
  across all content entries, each followed by one newline, with the whole result
  trimmed; a text part whose text is empty contributes nothing. When the content is empty
  or has no text parts the prompt is the empty string, and for the parts "Hello" and
  "world" it is "Hello", a newline, "world".
\<close>

theorem prompt_is_trimmed_nonempty_texts_with_newlines:
  "convertToOllamaPrompt request =
     trim (concat (map (\<lambda>t. t @ [nl]) (filter (\<lambda>t. t \<noteq> []) (text_parts (contents request)))))
   \<and> (entries (contents request) = [] \<longrightarrow> convertToOllamaPrompt request = [])
   \<and> (text_parts (contents request) = [] \<longrightarrow> convertToOllamaPrompt request = [])
   \<and> convertToOllamaPrompt example_request = js ''Hello'' @ [nl] @ js ''world''"
proof -
  have "text_parts (contents request) = []" if "entries (contents request) = []"
    using that by (simp add: text_parts_def map_filter_simps)
  then show ?thesis
    by (auto simp: prompt_eq [of request] trim_Nil example_request_prompt)
qed

theorem prompt_is_trimmed_nonempty_texts_with_newlines_witness:
  "convertToOllamaPrompt \<lparr>contents = Many [], config = None\<rparr> = []
   \<and> convertToOllamaPrompt
       \<lparr>contents = Many [EContent \<lparr>parts = Some [\<lparr>part_text = None\<rparr>], role = None\<rparr>],
        config = None\<rparr> = []
   \<and> convertToOllamaPrompt example_request = js ''Hello'' @ [nl] @ js ''world''"
  using prompt_is_trimmed_nonempty_texts_with_newlines
      [of "\<lparr>contents = Many [], config = None\<rparr>"]
    prompt_is_trimmed_nonempty_texts_with_newlines
      [of "\<lparr>contents = Many [EContent \<lparr>parts = Some [\<lparr>part_text = None\<rparr>], role = None\<rparr>],
           config = None\<rparr>"]
  by (simp add: text_parts_def map_filter_simps trim_Nil)

text \<open>
  The claim as stated fails on the parts "abcd", "" and "efg": the specification's prompt
  has a newline for the empty text part, the adapter's has none.
\<close>

theorem empty_text_part_gets_no_newline_counterexample:
  "convertToOllamaPrompt example_request_gap = js ''abcd'' @ [nl] @ js ''efg''
   \<and> spec_prompt example_request_gap = js ''abcd'' @ [nl, nl] @ js ''efg''
   \<and> convertToOllamaPrompt example_request_gap \<noteq> spec_prompt example_request_gap"
  by (simp add: convertToOllamaPrompt_def spec_prompt_def example_request_gap_def
      text_parts_def map_filter_simps truthy_text_def js_def trim_def is_ws_def nl_def)

text \<open>
  C4 (as amended). \<open>countTokens\<close> returns the ceiling of L/4, where L is the length of
  the text obtained by joining all non-empty text parts with single spaces and trimming;
  the result is monotonic in L, and L = 0 gives 0 tokens, L = 4 gives 1 and L = 5 gives 2.
\<close>

theorem countTokens_is_ceiling_of_quarter_length:
  "extractTextFromRequest request =
     trim (join_spaces (filter (\<lambda>t. t \<noteq> []) (text_parts (contents request))))
   \<and> totalTokens (countTokens request) = nat \<lceil>real (length (extractTextFromRequest request)) / 4\<rceil>
   \<and> (length (extractTextFromRequest request) \<le> length (extractTextFromRequest request')
        \<longrightarrow> totalTokens (countTokens request) \<le> totalTokens (countTokens request'))
   \<and> (length (extractTextFromRequest request) = 0 \<longrightarrow> totalTokens (countTokens request) = 0)
   \<and> (length (extractTextFromRequest request) = 4 \<longrightarrow> totalTokens (countTokens request) = 1)
   \<and> (length (extractTextFromRequest request) = 5 \<longrightarrow> totalTokens (countTokens request) = 2)"
proof -
  have "totalTokens (countTokens request) = nat \<lceil>real (length (extractTextFromRequest request)) / 4\<rceil>"
    by (simp add: countTokens_def ceil_div4_ceiling)
  moreover have "totalTokens (countTokens request) \<le> totalTokens (countTokens request')"
    if "length (extractTextFromRequest request) \<le> length (extractTextFromRequest request')"
    using that by (simp add: countTokens_def ceil_div4_mono)
  moreover have "totalTokens (countTokens request) = ceil_div4 (length (extractTextFromRequest request))"
    by (simp add: countTokens_def)
  ultimately show ?thesis
    using extract_eq [of request] by (auto simp: ceil_div4_def)
qed

theorem countTokens_is_ceiling_of_quarter_length_witness:
  "totalTokens (countTokens (example_request_of [])) = 0
   \<and> totalTokens (countTokens (example_request_of (js ''abcd''))) = 1
   \<and> totalTokens (countTokens (example_request_of (js ''abcde''))) = 2
   \<and> totalTokens (countTokens (example_request_of (js ''abcd'')))
       \<le> totalTokens (countTokens (example_request_of (js ''abcde'')))"
  using countTokens_is_ceiling_of_quarter_length
      [of "example_request_of []" "example_request_of []"]
    countTokens_is_ceiling_of_quarter_length
      [of "example_request_of (js ''abcd'')" "example_request_of (js ''abcde'')"]
    countTokens_is_ceiling_of_quarter_length
      [of "example_request_of (js ''abcde'')" "example_request_of (js ''abcde'')"]
  by (simp add: example_lengths)

text \<open>
  The claim as stated fails on the parts "abcd", "" and "efg": joined with single spaces
  they have length 9 and would count 3 tokens, the adapter counts 2.
\<close>

theorem empty_text_part_adds_no_space_counterexample:
  "totalTokens (countTokens example_request_gap) = 2
   \<and> spec_tokens example_request_gap = 3
   \<and> totalTokens (countTokens example_request_gap) \<noteq> spec_tokens example_request_gap"
proof -
  have "extractTextFromRequest example_request_gap = js ''abcd efg''"
    by (simp add: extractTextFromRequest_def example_request_gap_def truthy_text_def js_def
        trim_def is_ws_def space_def)
  then have c: "totalTokens (countTokens example_request_gap) = 2"
    by (simp add: countTokens_def ceil_div4_def js_def)
  have "trim (join_spaces (text_parts (contents example_request_gap))) = js ''abcd  efg''"
    by (simp add: example_request_gap_def text_parts_def map_filter_simps js_def
        trim_def is_ws_def space_def)
  then have "spec_tokens example_request_gap = ceil_div4 9"
    by (simp add: spec_tokens_def ceil_div4_ceiling js_def)
  then have "spec_tokens example_request_gap = 3"
    by (simp add: ceil_div4_def)
  with c show ?thesis by simp
qed




text \<open>
  C6. With a configured provider other than "ollama", \<open>generateContent\<close> and
  \<open>generateContentStream\<close> both fail with the UnsupportedProvider error, whose message
  ends with the configured value, and hand no request to the transport.
\<close>

theorem unsupported_provider_before_fetch:
  assumes "provider cfg \<noteq> js ''ollama''"
  shows "generateContent cfg net request = (Some (Inl (UnsupportedProvider (provider cfg))), [])
    \<and> generateContentStream cfg net parse request = (Inl (UnsupportedProvider (provider cfg)), [])
    \<and> message (UnsupportedProvider (provider cfg))
        = js ''Unsupported local model provider: '' @ provider cfg"
  using assms
  by (simp add: generateContent_def generateContentStream_def UnsupportedProvider_def Error_def)

theorem unsupported_provider_before_fetch_witness:
  "generateContent example_config_vllm example_net example_request
     = (Some (Inl (Error (js ''Unsupported local model provider: vllm''))), [])
   \<and> generateContentStream example_config_vllm example_net example_parse example_request
     = (Inl (Error (js ''Unsupported local model provider: vllm'')), [])"
proof -
  have p: "provider example_config_vllm \<noteq> js ''ollama''"
    by (simp add: example_config_vllm_def js_def)
  show ?thesis
    using unsupported_provider_before_fetch [OF p, of example_net example_request example_parse]
    by (simp add: UnsupportedProvider_def example_config_vllm_def js_def)
qed

text \<open>
  C7. A complete non-blank line on which \<open>JSON.parse\<close> throws yields no chunk, and the
  stream goes on: the chunks are those of the lines before it followed by those of the
  lines after it, and the generator completes without an error. The witness is the line
  \<open>not json\<close> between the two lines of C2.
\<close>

theorem unparseable_line_is_skipped:
  assumes "provider cfg = js ''ollama''"
    and "rq = ollama_request cfg (convertToOllamaPrompt request) True request"
    and "settles_at (net rq) = Some t" and "t < 120000"
    and "settles_with (net rq) = Inr resp" and "ok resp"
    and "body resp = Some b" and "ending b = EndOfStream"
    and "concat (chunks b) = stream_text (before @ [bad] @ after)"
    and "\<forall>l\<in>set (before @ [bad] @ after). nl \<notin> set l"
    and "trim bad \<noteq> []" and "parse bad = None"
  shows "process_line parse bad = []
    \<and> fst (generateContentStream cfg net parse request) =
       Inr \<lparr>yielded = concat (map (process_line parse) before)
                        @ concat (map (process_line parse) after),
            ends = Returns\<rparr>"
proof -
  have skip: "process_line parse bad = []"
    using assms(12) by (simp add: process_line_def)
  have "read_loop parse [] (chunks b) =
          concat (map (process_line parse) (before @ [bad] @ after))"
    using assms(9,10) by (intro read_loop_stream_text) auto
  with skip show ?thesis
    using stream_run [where net = net and parse = parse, OF assms(1-7)] assms(8) by simp
qed

theorem unparseable_line_is_skipped_witness:
  "process_line example_parse_lines example_line_noise = []
   \<and> fst (generateContentStream example_config (example_stream_net example_reads_noise)
          example_parse_lines example_request) =
     Inr \<lparr>yielded = [text_chunk (js ''a'') None, text_chunk (js ''b'') (Some STOP)],
          ends = Returns\<rparr>"
proof -
  let ?b = "\<lparr>chunks = example_reads_noise, ending = EndOfStream\<rparr>"
  let ?resp = "\<lparr>status = 200, statusText = js ''OK'', json_result = Some (Inr JNull), body = Some ?b\<rparr>"
  have p: "provider example_config = js ''ollama''"
    by (simp add: example_config_def)
  have s: "settles_at (example_stream_net example_reads_noise rq) = Some 50" "(50::nat) < 120000"
    "settles_with (example_stream_net example_reads_noise rq) = Inr ?resp" for rq
    by (simp_all add: example_stream_net_def)
  have k: "ok ?resp" "body ?resp = Some ?b" "ending ?b = EndOfStream"
    by (simp_all add: ok_def)
  have t: "concat (chunks ?b)
          = stream_text ([example_line_a] @ [example_line_noise] @ [example_line_b])"
    by (simp add: example_reads_noise_text)
  have l: "\<forall>l\<in>set ([example_line_a] @ [example_line_noise] @ [example_line_b]). nl \<notin> set l"
    by (simp add: example_lines_nl_free example_noise_facts)
  show ?thesis
    using unparseable_line_is_skipped
      [where net = "example_stream_net example_reads_noise" and parse = example_parse_lines
         and request = example_request, OF p refl s k t l example_noise_facts(2,3)]
    by (simp add: example_chunks)
qed

text \<open>
  C8. \<open>embedContent\<close> fails with the NotSupported error for every request, whatever the
  configuration and the transport, and hands no request to the transport. Its message
  tells the caller to use Google embedding models.
\<close>

theorem embedContent_not_supported:
  "embedContent cfg net request = (Inl NotSupported, [])
   \<and> message NotSupported
       = js ''Embedding not supported with local models. Use Google embedding models.''"
  by (simp add: embedContent_def NotSupported_def Error_def)

text \<open>
  C9. Entries of \<open>contents\<close> that are not objects with a \<open>parts\<close> field (strings and
  bare parts) contribute nothing to either text extraction: a request with no such object
  (a single string in particular) has the empty prompt and a token count of 0, and
  dropping those entries from an array changes neither the prompt nor the token count.
\<close>

theorem only_entries_with_parts_are_read:
  "((\<forall>e\<in>set (entries (contents request)). \<forall>c. e \<noteq> EContent c)
      \<longrightarrow> convertToOllamaPrompt request = [] \<and> totalTokens (countTokens request) = 0)
   \<and> (contents request = Single (EString s)
      \<longrightarrow> convertToOllamaPrompt request = [] \<and> totalTokens (countTokens request) = 0)
   \<and> (contents request = Many es
      \<longrightarrow> convertToOllamaPrompt request =
            convertToOllamaPrompt
              (request\<lparr>contents :=
                 Many (filter (\<lambda>e. case e of EContent c \<Rightarrow> True | _ \<Rightarrow> False) es)\<rparr>)
          \<and> countTokens request =
            countTokens
              (request\<lparr>contents :=
                 Many (filter (\<lambda>e. case e of EContent c \<Rightarrow> True | _ \<Rightarrow> False) es)\<rparr>))"
proof -
  have a: "convertToOllamaPrompt request = [] \<and> totalTokens (countTokens request) = 0"
    if "\<forall>e\<in>set (entries (contents request)). \<forall>c. e \<noteq> EContent c"
    using no_content_no_text [OF that]
    by (simp add: prompt_eq extract_eq countTokens_def trim_Nil ceil_div4_def)
  have b: "convertToOllamaPrompt request = [] \<and> totalTokens (countTokens request) = 0"
    if "contents request = Single (EString s)"
    using that by (intro a) simp
  have c: "convertToOllamaPrompt request =
        convertToOllamaPrompt
          (request\<lparr>contents :=
             Many (filter (\<lambda>e. case e of EContent c \<Rightarrow> True | _ \<Rightarrow> False) es)\<rparr>)
      \<and> countTokens request =
        countTokens
          (request\<lparr>contents :=
             Many (filter (\<lambda>e. case e of EContent c \<Rightarrow> True | _ \<Rightarrow> False) es)\<rparr>)"
    if "contents request = Many es"
    using that by (simp add: prompt_eq extract_eq countTokens_def filter_content_texts)
  from a b c show ?thesis by blast
qed

theorem only_entries_with_parts_are_read_witness:
  "convertToOllamaPrompt example_request_string = []
   \<and> totalTokens (countTokens example_request_string) = 0
   \<and> convertToOllamaPrompt example_request_mixed = convertToOllamaPrompt example_request
   \<and> countTokens example_request_mixed = countTokens example_request"
proof -
  have m: "contents example_request_mixed =
      Many [EString (js ''Why''),
            EContent \<lparr>parts = Some [\<lparr>part_text = Some (js ''Hello'')\<rparr>,
                                    \<lparr>part_text = Some (js ''world'')\<rparr>],
                      role = Some (js ''user'')\<rparr>,
            EPart \<lparr>part_text = Some (js ''blue'')\<rparr>]"
    by (simp add: example_request_mixed_def)
  have f: "example_request_mixed
      \<lparr>contents := Many (filter (\<lambda>e. case e of EContent c \<Rightarrow> True | _ \<Rightarrow> False)
         [EString (js ''Why''),
            EContent \<lparr>parts = Some [\<lparr>part_text = Some (js ''Hello'')\<rparr>,
                                    \<lparr>part_text = Some (js ''world'')\<rparr>],
                      role = Some (js ''user'')\<rparr>,
            EPart \<lparr>part_text = Some (js ''blue'')\<rparr>])\<rparr> = example_request"
    by (simp add: example_request_mixed_def example_request_def)
  have s: "contents example_request_string = Single (EString (js ''Why is the sky blue?''))"
    by (simp add: example_request_string_def)
  show ?thesis
    using only_entries_with_parts_are_read
        [where request = example_request_string and s = "js ''Why is the sky blue?''"]
      only_entries_with_parts_are_read
        [where request = example_request_mixed
           and es = "[EString (js ''Why''),
            EContent \<lparr>parts = Some [\<lparr>part_text = Some (js ''Hello'')\<rparr>,
                                    \<lparr>part_text = Some (js ''world'')\<rparr>],
                      role = Some (js ''user'')\<rparr>,
            EPart \<lparr>part_text = Some (js ''blue'')\<rparr>]"]
      m f s
    by simp
qed

text \<open>
  C10. Every response that \<open>generateContent\<close> returns and every chunk that
  \<open>generateContentStream\<close> yields has exactly one candidate, with role "model", index 0
  and exactly one part, a text part, and an empty list of safety ratings.
\<close>

theorem every_response_has_one_model_candidate:
  "(\<forall>r. fst (generateContent cfg net request) = Some (Inr r) \<longrightarrow> single_model_candidate r)
   \<and> (\<forall>s. fst (generateContentStream cfg net parse request) = Inr s
        \<longrightarrow> (\<forall>c\<in>set (yielded s). single_model_candidate c))"
proof (intro conjI allI impI ballI)
  fix r
  assume "fst (generateContent cfg net request) = Some (Inr r)"
  then show "single_model_candidate r"
    by (auto simp: generateContent_def generateContentOllama_def Let_def
        split: if_splits sum.splits option.splits dest: convertFromOllamaResponse_shape)
next
  fix s c
  assume "fst (generateContentStream cfg net parse request) = Inr s" and "c \<in> set (yielded s)"
  then show "single_model_candidate c"
    by (auto simp: generateContentStream_def generateContentStreamOllama_def Let_def
        split: if_splits sum.splits option.splits dest: read_loop_shape)
qed

theorem every_response_has_one_model_candidate_witness:
  "single_model_candidate
     \<lparr>candidates =
        [\<lparr>content = \<lparr>parts = Some [\<lparr>part_text = Some (js ''hi'')\<rparr>], role = Some (js ''model'')\<rparr>,
          finishReason = Some STOP, index = 0\<rparr>],
      promptFeedback = \<lparr>safetyRatings = []\<rparr>,
      usageMetadata =
        Some \<lparr>promptTokenCount = Finite 3, candidatesTokenCount = Finite 2,
                  totalTokenCount = Finite 5\<rparr>\<rparr>
   \<and> single_model_candidate (text_chunk (js ''a'') None)
   \<and> single_model_candidate (text_chunk (js ''b'') (Some STOP))"
proof -
  note inv = every_response_has_one_model_candidate
    [where cfg = example_config and request = example_request]
  from inv [where net = example_net] example_generate_result
  have g: "single_model_candidate
     \<lparr>candidates =
        [\<lparr>content = \<lparr>parts = Some [\<lparr>part_text = Some (js ''hi'')\<rparr>], role = Some (js ''model'')\<rparr>,
          finishReason = Some STOP, index = 0\<rparr>],
      promptFeedback = \<lparr>safetyRatings = []\<rparr>,
      usageMetadata =
        Some \<lparr>promptTokenCount = Finite 3, candidatesTokenCount = Finite 2,
                  totalTokenCount = Finite 5\<rparr>\<rparr>"
    by blast
  from inv [where net = "example_stream_net example_reads" and parse = example_parse_lines]
    example_stream_result
  have "\<forall>c\<in>set [text_chunk (js ''a'') None, text_chunk (js ''b'') (Some STOP)].
          single_model_candidate c"
    by fastforce
  with g show ?thesis by simp
qed

end
